theory Spec2Isabelle
  imports Complex_Main "HOL-Library.Word"
begin

section \<open>Data model\<close>

text \<open>
  The embedding follows \<^verbatim>\<open>shadowsocks/cryptor.py\<close> and \<^verbatim>\<open>shadowsocks/handlers.py\<close>.
  A Python \<^verbatim>\<open>bytes\<close> value is a list of octets, a Python integer is an \<open>int\<close>,
  \<^verbatim>\<open>time.time()\<close> is a \<open>real\<close>, an attribute that may be \<^verbatim>\<open>None\<close> is an option.
\<close>

type_synonym bytes = "8 word list"

type_synonym peer = "string \<times> nat"

text \<open>The exceptions that the two modules raise, catch or let pass.\<close>

datatype py_error =
    NotImplementedError
  | TypeError
  | AttributeError
  | RuntimeError
  | IndexError
  | ValueError
  | StructError
  | MemoryError
  | OSError
  | OtherError

text \<open>
  Modelled from the spec: \<^verbatim>\<open>flag.TRANSPORT_TCP\<close> and \<^verbatim>\<open>flag.TRANSPORT_UDP\<close> come from
  \<^verbatim>\<open>shadowsocks/protocol_flag.py\<close>, which is not part of the sources; the spec gives
  the transport kind as an enumeration of the two values TCP and UDP.
\<close>

datatype transport_kind = TRANSPORT_TCP | TRANSPORT_UDP

text \<open>
  The address type tags \<^verbatim>\<open>flag.ATYPE_IPV4\<close>, \<^verbatim>\<open>flag.ATYPE_IPV6\<close> and
  \<^verbatim>\<open>flag.ATYPE_DOMAINNAME\<close> are constants of the same missing module; the header
  parser takes them as a parameter.
\<close>

record protocol_flag =
  ATYPE_IPV4 :: nat
  ATYPE_IPV6 :: nat
  ATYPE_DOMAINNAME :: nat

text \<open>The user object shared by the connections of one subscriber.\<close>

record user_obj =
  user_id :: int
  tcp_count :: int
  once_used_u :: int
  once_used_d :: int

text \<open>
  The client transport is an object of the event loop. Its methods either return or
  raise; what each call does is a field of the object (\<open>None\<close>: the call returns).
\<close>

record transport_obj =
  t_close :: "py_error option"
  t_write :: "bytes \<Rightarrow> py_error option"
  t_sendto :: "bytes \<Rightarrow> peer option \<Rightarrow> py_error option"
  t_peername :: "peer option"

text \<open>The outbound peer (\<^verbatim>\<open>RemoteTCP\<close>), known by its \<^verbatim>\<open>write\<close> and \<^verbatim>\<open>close\<close>.\<close>

record remote_obj =
  r_write :: "bytes \<Rightarrow> py_error option"
  r_close :: "py_error option"

text \<open>
  A cipher instance (\<^verbatim>\<open>AESCipher\<close>, \<^verbatim>\<open>NONECipher\<close>): both classes live in
  \<^verbatim>\<open>shadowsocks/crypto\<close>, outside the sources, and are known by their
  \<^verbatim>\<open>encrypt\<close> and \<^verbatim>\<open>decrypt\<close> methods.
\<close>

record cipher_obj =
  cipher_encrypt :: "bytes \<Rightarrow> py_error + bytes"
  cipher_decrypt :: "bytes \<Rightarrow> py_error + bytes"

text \<open>The two cipher families as \<^verbatim>\<open>cryptor.py\<close> imports them.\<close>

record cipher_lib =
  AES_SUPPORT_METHODS :: "string list"
  NONE_SUPPORT_METHODS :: "string list"
  AESCipher :: "string \<Rightarrow> string \<Rightarrow> int \<Rightarrow> py_error + cipher_obj"
  NONECipher :: "string \<Rightarrow> string \<Rightarrow> int \<Rightarrow> py_error + cipher_obj"

text \<open>\<^verbatim>\<open>pool\<close>: the admission check consulted by the handlers.\<close>

record pool_obj =
  filter_user :: "user_obj \<Rightarrow> bool"

text \<open>A destination address as \<^verbatim>\<open>_handle_stage_init\<close> obtains it.\<close>

datatype addr = AddrIPv4 bytes | AddrIPv6 bytes | AddrDomain bytes

text \<open>Coroutines handed to \<^verbatim>\<open>asyncio.ensure_future\<close>.\<close>

datatype task =
    KeepAlive
  | StageInit bytes
  | StageConnect bytes
  | UdpEndpoint addr nat bytes

datatype level = Debug | Warning

text \<open>
  What a handler does to its collaborators, in the order in which it happens. A call of
  a transport or remote method is recorded when it returns; \<open>Propagate\<close> records an
  exception that leaves a callback.
\<close>

datatype event =
    TransportClose
  | TransportWrite bytes
  | TransportSendto bytes "peer option"
  | RemoteWrite bytes
  | RemoteClose
  | Log level string
  | CaptureException
  | AddUserToJail int
  | EnsureFuture task
  | CreateConnection addr nat bytes
  | Sleep real
  | Propagate py_error

text \<open>The attributes of a \<^verbatim>\<open>LocalHandler\<close>.\<close>

record handler =
  user :: user_obj
  key :: string
  method_name :: string
  remote :: "remote_obj option"
  cryptor :: "cipher_obj option"
  peername :: "peer option"
  transport :: "transport_obj option"
  transport_protocol :: "transport_kind option"
  stage :: int
  last_active_time :: real
  timeout_limit :: real

text \<open>A handler together with the effects it has had so far.\<close>

type_synonym world = "handler \<times> event list"

definition emit :: "event \<Rightarrow> world \<Rightarrow> world" where
  "emit e w = (fst w, snd w @ [e])"

definition upd :: "(handler \<Rightarrow> handler) \<Rightarrow> world \<Rightarrow> world" where
  "upd f w = (f (fst w), snd w)"

definition STAGE_INIT :: int where "STAGE_INIT = 0"
definition STAGE_CONNECT :: int where "STAGE_CONNECT = 1"
definition STAGE_STREAM :: int where "STAGE_STREAM = 2"
definition STAGE_DESTROY :: int where "STAGE_DESTROY = - 1"
definition STAGE_ERROR :: int where "STAGE_ERROR = 255"

section \<open>cryptor.py\<close>

text \<open>
  \<^verbatim>\<open>Cryptor.__init__(self, method, password, flag)\<close>. The loop runs over the two
  entries that \<^verbatim>\<open>_register_chipher\<close> stores, \<^verbatim>\<open>'aes'\<close> first; it has no
  \<^verbatim>\<open>break\<close>, so a later family that lists the method replaces an earlier one.
\<close>

fun find_cipher ::
  "cipher_lib \<Rightarrow> string \<Rightarrow> string \<Rightarrow> int \<Rightarrow> (string \<times> string list) list \<Rightarrow>
   cipher_obj option \<Rightarrow> py_error + cipher_obj option" where
  "find_cipher lib m pw fl [] crypto = Inr crypto"
| "find_cipher lib m pw fl ((name, methods) # rest) crypto =
     (if List.member methods m then
        (if name = ''aes'' then
           (case AESCipher lib m pw fl of
              Inl e \<Rightarrow> Inl e
            | Inr c \<Rightarrow> find_cipher lib m pw fl rest (Some c))
         else if name = ''none'' then
           (case NONECipher lib m pw fl of
              Inl e \<Rightarrow> Inl e
            | Inr c \<Rightarrow> find_cipher lib m pw fl rest (Some c))
         else find_cipher lib m pw fl rest crypto)
      else find_cipher lib m pw fl rest crypto)"

definition register_chipher :: "cipher_lib \<Rightarrow> (string \<times> string list) list" where
  "register_chipher lib =
     [(''aes'', AES_SUPPORT_METHODS lib), (''none'', NONE_SUPPORT_METHODS lib)]"

definition Cryptor_init :: "cipher_lib \<Rightarrow> string \<Rightarrow> string \<Rightarrow> int \<Rightarrow> py_error + cipher_obj" where
  "Cryptor_init lib m pw fl =
     (case find_cipher lib m pw fl (register_chipher lib) None of
        Inl e \<Rightarrow> Inl e
      | Inr None \<Rightarrow> Inl NotImplementedError
      | Inr (Some c) \<Rightarrow> Inr c)"

text \<open>
  The call \<^verbatim>\<open>Cryptor(...)\<close>. The constructor has three required positional parameters
  after \<^verbatim>\<open>self\<close> and none has a default: a call that leaves the third one out
  (\<open>None\<close> here) raises \<^verbatim>\<open>TypeError\<close> before the body runs.
\<close>

definition Cryptor_call ::
  "cipher_lib \<Rightarrow> string \<Rightarrow> string \<Rightarrow> int option \<Rightarrow> py_error + cipher_obj" where
  "Cryptor_call lib m pw fl =
     (case fl of None \<Rightarrow> Inl TypeError | Some f \<Rightarrow> Cryptor_init lib m pw f)"

text \<open>\<^verbatim>\<open>Cryptor.decrypt\<close>: every exception of the cipher becomes a \<^verbatim>\<open>RuntimeError\<close>.\<close>

definition decrypt :: "cipher_obj \<Rightarrow> bytes \<Rightarrow> py_error + bytes" where
  "decrypt c data =
     (case cipher_decrypt c data of Inr plain \<Rightarrow> Inr plain | Inl e \<Rightarrow> Inl RuntimeError)"

section \<open>handlers.py\<close>

subsection \<open>Construction\<close>

text \<open>\<^verbatim>\<open>LocalHandler.__init__\<close>, with the clock reading of \<^verbatim>\<open>TimeoutHandler.__init__\<close>.\<close>

definition LocalHandler_init :: "string \<Rightarrow> string \<Rightarrow> user_obj \<Rightarrow> real \<Rightarrow> handler" where
  "LocalHandler_init m password u now =
     \<lparr>user = u, key = password, method_name = m, remote = None, cryptor = None,
      peername = None, transport = None, transport_protocol = None,
      stage = STAGE_DESTROY, last_active_time = now, timeout_limit = 20\<rparr>"

subsection \<open>close and write\<close>

definition dec_tcp_count :: "handler \<Rightarrow> handler" where
  "dec_tcp_count h =
     (if tcp_count (user h) > 0
      then h\<lparr>user := (user h)\<lparr>tcp_count := tcp_count (user h) - 1\<rparr>\<rparr>
      else h)"

text \<open>
  \<^verbatim>\<open>LocalHandler.close\<close>. An exception of \<^verbatim>\<open>transport.close()\<close> and the
  \<^verbatim>\<open>NotImplementedError\<close> of the last branch both end in the bare \<^verbatim>\<open>except\<close>.
\<close>

definition close :: "world \<Rightarrow> world" where
  "close w =
     (case transport_protocol (fst w) of
        Some TRANSPORT_TCP \<Rightarrow>
          (case transport (fst w) of
             None \<Rightarrow> upd dec_tcp_count w
           | Some t \<Rightarrow>
               (case t_close t of
                  None \<Rightarrow> upd dec_tcp_count (emit TransportClose w)
                | Some e \<Rightarrow> emit CaptureException w))
      | Some TRANSPORT_UDP \<Rightarrow> w
      | None \<Rightarrow> emit CaptureException w)"

definition add_once_used_d :: "int \<Rightarrow> handler \<Rightarrow> handler" where
  "add_once_used_d n h = h\<lparr>user := (user h)\<lparr>once_used_d := once_used_d (user h) + n\<rparr>\<rparr>"

definition add_once_used_u :: "int \<Rightarrow> handler \<Rightarrow> handler" where
  "add_once_used_u n h = h\<lparr>user := (user h)\<lparr>once_used_u := once_used_u (user h) + n\<rparr>\<rparr>"

text \<open>
  \<^verbatim>\<open>LocalHandler.write\<close> (\<open>write\<close> is a keyword of the theory language). After the admission check and its \<^verbatim>\<open>close()\<close> the
  method goes on with the transport branches: there is no \<^verbatim>\<open>return\<close>.
\<close>

definition handler_write :: "pool_obj \<Rightarrow> bytes \<Rightarrow> world \<Rightarrow> world" where
  "handler_write p data w0 =
     (let w = (if \<not> filter_user p (user (fst w0)) then close w0 else w0) in
      case transport_protocol (fst w) of
        Some TRANSPORT_TCP \<Rightarrow>
          (case transport (fst w) of
             None \<Rightarrow> emit CaptureException w
           | Some t \<Rightarrow>
               (case t_write t data of
                  None \<Rightarrow> upd (add_once_used_d (int (length data))) (emit (TransportWrite data) w)
                | Some e \<Rightarrow>
                    (if e = MemoryError
                     then close (emit (AddUserToJail (user_id (user (fst w))))
                                  (emit (Log Warning ''memory boom user_id'') w))
                     else emit CaptureException w)))
      | Some TRANSPORT_UDP \<Rightarrow>
          (case transport (fst w) of
             None \<Rightarrow> emit CaptureException w
           | Some t \<Rightarrow>
               (case t_sendto t data (peername (fst w)) of
                  None \<Rightarrow> emit (TransportSendto data (peername (fst w))) w
                | Some e \<Rightarrow> emit CaptureException w))
      | None \<Rightarrow> emit CaptureException w)"

subsection \<open>Connection made\<close>

text \<open>
  Both callbacks construct the cipher with \<^verbatim>\<open>Cryptor(self._method, self._key)\<close>: two
  arguments, no third one. \<open>cryptor_made\<close> is the inner \<^verbatim>\<open>try\<close> with its handler for
  \<^verbatim>\<open>NotImplementedError\<close>, inside the bare \<^verbatim>\<open>except\<close> of the callback.
\<close>

definition cryptor_made :: "py_error + cipher_obj \<Rightarrow> string \<Rightarrow> world \<Rightarrow> world" where
  "cryptor_made res made w =
     (case res of
        Inr c \<Rightarrow> emit (Log Debug made) (upd (\<lambda>h. h\<lparr>cryptor := Some c\<rparr>) w)
      | Inl e \<Rightarrow>
          (if e = NotImplementedError
           then close (emit (Log Warning ''not support cipher'') w)
           else emit CaptureException w))"

definition make_cryptor :: "cipher_lib \<Rightarrow> string \<Rightarrow> world \<Rightarrow> world" where
  "make_cryptor lib made w =
     cryptor_made (Cryptor_call lib (method_name (fst w)) (key (fst w)) None) made w"

definition handle_tcp_connection_made ::
  "pool_obj \<Rightarrow> cipher_lib \<Rightarrow> transport_obj \<Rightarrow> world \<Rightarrow> world" where
  "handle_tcp_connection_made p lib t w =
     (if \<not> filter_user p (user (fst w)) then
        (case t_close t of
           None \<Rightarrow> emit TransportClose w
         | Some e \<Rightarrow> emit CaptureException w)
      else
        make_cryptor lib ''tcp connection made''
          (emit (EnsureFuture KeepAlive)
             (upd (\<lambda>h. h\<lparr>stage := STAGE_INIT, transport_protocol := Some TRANSPORT_TCP,
                          transport := Some t, peername := t_peername t\<rparr>) w)))"

definition handle_udp_connection_made ::
  "cipher_lib \<Rightarrow> transport_obj \<Rightarrow> peer option \<Rightarrow> world \<Rightarrow> world" where
  "handle_udp_connection_made lib t pn w =
     make_cryptor lib ''udp connection made''
       (upd (\<lambda>h. h\<lparr>stage := STAGE_INIT, transport := Some t,
                    transport_protocol := Some TRANSPORT_UDP, peername := pn\<rparr>) w)"

subsection \<open>Stage handlers\<close>

text \<open>\<^verbatim>\<open>_handle_stage_stream\<close>; \<open>now\<close> is the clock reading of \<^verbatim>\<open>keep_alive_active\<close>.\<close>

definition remote_write :: "bytes \<Rightarrow> world \<Rightarrow> world" where
  "remote_write data w =
     (case remote (fst w) of
        None \<Rightarrow> emit CaptureException w
      | Some r \<Rightarrow>
          (case r_write r data of
             None \<Rightarrow> emit (RemoteWrite data) w
           | Some e \<Rightarrow> emit CaptureException w))"

definition keep_alive_active :: "real \<Rightarrow> handler \<Rightarrow> handler" where
  "keep_alive_active now h = h\<lparr>last_active_time := now\<rparr>"

definition handle_stage_stream :: "real \<Rightarrow> bytes \<Rightarrow> world \<Rightarrow> world" where
  "handle_stage_stream now data w =
     remote_write data (upd (keep_alive_active now) (emit (Log Debug ''realy data length'') w))"

definition handle_stage_error :: "world \<Rightarrow> world" where
  "handle_stage_error w = close w"

text \<open>
  \<^verbatim>\<open>_handle_stage_connect\<close>. The loop body runs for \<open>i\<close> in \<^verbatim>\<open>range(25)\<close>; during
  the sleep of round \<open>i\<close> the other tasks of the event loop change the handler by
  \<open>env i\<close>. The third branch neither sleeps nor leaves the loop.
\<close>

fun connect_loop ::
  "(nat \<Rightarrow> handler \<Rightarrow> handler) \<Rightarrow> bytes \<Rightarrow> nat list \<Rightarrow> world \<Rightarrow> world" where
  "connect_loop env data [] w = emit (Log Warning ''time out to connect remote stage'') w"
| "connect_loop env data (i # rest) w =
     (if stage (fst w) = STAGE_CONNECT then
        connect_loop env data rest (upd (env i) (emit (Sleep 0.2) w))
      else if stage (fst w) = STAGE_STREAM then
        remote_write data (emit (Log Debug ''connection established'') w)
      else
        connect_loop env data rest (emit (Log Debug ''some error happed stage'') w))"

definition handle_stage_connect ::
  "(nat \<Rightarrow> handler \<Rightarrow> handler) \<Rightarrow> bytes \<Rightarrow> world \<Rightarrow> world" where
  "handle_stage_connect env data w =
     connect_loop env data [0..<25]
       (emit (Log Debug ''wait until the connection established'') w)"

subsection \<open>Data received\<close>

text \<open>Lines 167 to 180 of \<^verbatim>\<open>handle_data_received\<close>: accounting, then the dispatch.\<close>

definition dispatch :: "real \<Rightarrow> bytes \<Rightarrow> world \<Rightarrow> world" where
  "dispatch now data w0 =
     (let w = upd (add_once_used_u (int (length data))) w0 in
      if stage (fst w) = STAGE_INIT then emit (EnsureFuture (StageInit data)) w
      else if stage (fst w) = STAGE_CONNECT then emit (EnsureFuture (StageConnect data)) w
      else if stage (fst w) = STAGE_STREAM then handle_stage_stream now data w
      else if stage (fst w) = STAGE_ERROR then handle_stage_error w
      else emit (Log Warning ''unknown stage'') w)"

text \<open>
  \<^verbatim>\<open>handle_data_received\<close>. With no cryptor the attribute access raises; with a
  \<^verbatim>\<open>RuntimeError\<close> of \<^verbatim>\<open>decrypt\<close> the handler logs, closes and goes on with
  \<^verbatim>\<open>data\<close> still bound to the bytes it received.
\<close>

definition handle_data_received :: "real \<Rightarrow> bytes \<Rightarrow> world \<Rightarrow> world" where
  "handle_data_received now data w =
     (case cryptor (fst w) of
        None \<Rightarrow> emit CaptureException w
      | Some c \<Rightarrow>
          (case decrypt c data of
             Inr plain \<Rightarrow> dispatch now plain w
           | Inl e \<Rightarrow>
               (if e = RuntimeError
                then dispatch now data (close (emit (Log Warning ''decrypt data error'') w))
                else emit CaptureException w)))"

definition handle_eof_received :: "world \<Rightarrow> world" where
  "handle_eof_received w = close (emit (Log Debug ''eof received'') w)"

text \<open>\<^verbatim>\<open>handle_connection_lost\<close> has no handler of its own around \<^verbatim>\<open>remote.close()\<close>.\<close>

definition handle_connection_lost :: "world \<Rightarrow> world" where
  "handle_connection_lost w0 =
     (let w = emit (Log Debug ''lost exc'') w0 in
      case remote (fst w) of
        None \<Rightarrow> w
      | Some r \<Rightarrow>
          (case r_close r of
             None \<Rightarrow> emit RemoteClose w
           | Some e \<Rightarrow> emit (Propagate e) w))"

subsection \<open>Handshake parsing\<close>

text \<open>A slice \<^verbatim>\<open>data[a:b]\<close> with \<open>0 \<le> a\<close>: it never raises, it is cut at the end.\<close>

definition slice :: "nat \<Rightarrow> nat \<Rightarrow> bytes \<Rightarrow> bytes" where
  "slice a b data = take (b - a) (drop a data)"

text \<open>
  \<^verbatim>\<open>socket.inet_ntop\<close> raises \<^verbatim>\<open>ValueError\<close> unless the packed address has the length
  of its family; the text it returns is kept as the packed bytes.
\<close>

definition inet_ntop :: "nat \<Rightarrow> (bytes \<Rightarrow> addr) \<Rightarrow> bytes \<Rightarrow> py_error + addr" where
  "inet_ntop n family packed =
     (if length packed = n then Inr (family packed) else Inl ValueError)"

text \<open>\<^verbatim>\<open>struct.unpack('!H', b)[0]\<close>: exactly two bytes, big endian.\<close>

definition unpack_H :: "bytes \<Rightarrow> py_error + nat" where
  "unpack_H b =
     (case b of
        [hi, lo] \<Rightarrow> Inr (unat hi * 256 + unat lo)
      | _ \<Rightarrow> Inl StructError)"

datatype header = Parsed addr nat bytes | UnknownAtype | ParseRaised py_error

text \<open>Lines 203 to 223 of \<^verbatim>\<open>_handle_stage_init\<close>.\<close>

definition parse_header :: "protocol_flag \<Rightarrow> bytes \<Rightarrow> header" where
  "parse_header flg data =
     (case data of
        [] \<Rightarrow> ParseRaised IndexError
      | atype # _ \<Rightarrow>
          (if unat atype = ATYPE_IPV4 flg then
             (case inet_ntop 4 AddrIPv4 (slice 1 5 data) of
                Inl e \<Rightarrow> ParseRaised e
              | Inr dst_addr \<Rightarrow>
                  (case unpack_H (slice 5 7 data) of
                     Inl e \<Rightarrow> ParseRaised e
                   | Inr dst_port \<Rightarrow> Parsed dst_addr dst_port (drop 7 data)))
           else if unat atype = ATYPE_IPV6 flg then
             (case inet_ntop 16 AddrIPv6 (slice 1 17 data) of
                Inl e \<Rightarrow> ParseRaised e
              | Inr dst_addr \<Rightarrow>
                  (case unpack_H (slice 17 19 data) of
                     Inl e \<Rightarrow> ParseRaised e
                   | Inr dst_port \<Rightarrow> Parsed dst_addr dst_port (drop 19 data)))
           else if unat atype = ATYPE_DOMAINNAME flg then
             (if length data < 2 then ParseRaised IndexError
              else
                (let domain_length = unat (data ! 1);
                     domain_index = 2 + domain_length
                 in case unpack_H (slice domain_index (domain_index + 2) data) of
                      Inl e \<Rightarrow> ParseRaised e
                    | Inr dst_port \<Rightarrow>
                        Parsed (AddrDomain (slice 2 domain_index data)) dst_port
                          (drop (domain_index + 2) data)))
           else UnknownAtype))"

text \<open>
  \<^verbatim>\<open>_handle_stage_init\<close> up to its \<^verbatim>\<open>await\<close>: the coroutine either returns or is
  suspended on \<^verbatim>\<open>loop.create_connection\<close>.
\<close>

datatype init_status = InitReturned | InitAwaiting

definition handle_stage_init_begin ::
  "protocol_flag \<Rightarrow> bytes \<Rightarrow> world \<Rightarrow> init_status \<times> world" where
  "handle_stage_init_begin flg data w =
     (case parse_header flg data of
        ParseRaised e \<Rightarrow> (InitReturned, emit CaptureException w)
      | UnknownAtype \<Rightarrow> (InitReturned, close (emit (Log Warning ''unknown atype'') w))
      | Parsed dst_addr dst_port payload \<Rightarrow>
          (case transport_protocol (fst w) of
             Some TRANSPORT_TCP \<Rightarrow>
               (InitAwaiting,
                emit (CreateConnection dst_addr dst_port payload)
                  (upd (\<lambda>h. h\<lparr>stage := STAGE_CONNECT\<rparr>) w))
           | Some TRANSPORT_UDP \<Rightarrow>
               (InitReturned,
                emit (EnsureFuture (UdpEndpoint dst_addr dst_port payload))
                  (upd (\<lambda>h. h\<lparr>stage := STAGE_INIT\<rparr>) w))
           | None \<Rightarrow> (InitReturned, emit CaptureException w)))"

text \<open>
  What the awaited connection attempt gives: the remote instance, an \<^verbatim>\<open>IOError\<close> or
  \<^verbatim>\<open>OSError\<close>, another \<^verbatim>\<open>Exception\<close>, or an exception outside \<^verbatim>\<open>Exception\<close>
  (left to the bare \<^verbatim>\<open>except\<close>).
\<close>

datatype conn_result = Established remote_obj | FailedIO | FailedOther | FailedBase

definition inc_tcp_count :: "handler \<Rightarrow> handler" where
  "inc_tcp_count h = h\<lparr>user := (user h)\<lparr>tcp_count := tcp_count (user h) + 1\<rparr>\<rparr>"

text \<open>\<^verbatim>\<open>_handle_stage_init\<close> from the \<^verbatim>\<open>await\<close> on (TCP).\<close>

definition handle_stage_init_resume :: "conn_result \<Rightarrow> world \<Rightarrow> world" where
  "handle_stage_init_resume res w =
     (case res of
        Established remote_instance \<Rightarrow>
          upd (\<lambda>h. h\<lparr>remote := Some remote_instance, stage := STAGE_STREAM\<rparr>)
            (emit (Log Debug ''connection established,remote'') (upd inc_tcp_count w))
      | FailedIO \<Rightarrow>
          upd (\<lambda>h. h\<lparr>stage := STAGE_DESTROY\<rparr>) (close (emit (Log Debug ''connection faild'') w))
      | FailedOther \<Rightarrow>
          upd (\<lambda>h. h\<lparr>stage := STAGE_ERROR\<rparr>) (close (emit (Log Warning ''connection failed'') w))
      | FailedBase \<Rightarrow> emit CaptureException w)"

subsection \<open>Idle supervision\<close>

text \<open>
  \<^verbatim>\<open>TimeoutHandler._keep_alive\<close>. Each element of the schedule is one round of the
  loop: the clock reading of that round, and what the other tasks do to the handler
  while the task sleeps. The result says whether the task has ended within the
  schedule. Clock readings are binary64 values, and the interpreter rounds their
  difference: \<open>fsub\<close> is that subtraction. The comparison with the limit is exact.
\<close>

fun keep_alive_sub ::
  "(real \<Rightarrow> real \<Rightarrow> real) \<Rightarrow> (real \<times> (handler \<Rightarrow> handler)) list \<Rightarrow> world \<Rightarrow> bool \<times> world" where
  "keep_alive_sub fsub [] w = (Option.is_none (transport (fst w)), w)"
| "keep_alive_sub fsub ((current_time, env) # rest) w =
     (if Option.is_none (transport (fst w)) then (True, w)
      else if fsub current_time (last_active_time (fst w)) > timeout_limit (fst w)
      then (True, close w)
      else keep_alive_sub fsub rest (upd env (emit (Sleep 1) w)))"

text \<open>
  The task on clock readings whose differences binary64 represents, so that the rounded
  subtraction is the exact one: whole numbers of seconds below \<open>2 ^ 53\<close> are such
  readings.
\<close>

definition keep_alive :: "(real \<times> (handler \<Rightarrow> handler)) list \<Rightarrow> world \<Rightarrow> bool \<times> world" where
  "keep_alive = keep_alive_sub (\<lambda>a b. a - b)"

subsection \<open>Callbacks of an established or unestablished connection\<close>

text \<open>The callbacks of the transport layer and of the remote side, connection made apart.\<close>

datatype callback =
    DataReceived real bytes
  | EofReceived
  | ConnectionLost
  | Write bytes
  | Close

fun deliver :: "pool_obj \<Rightarrow> callback \<Rightarrow> world \<Rightarrow> world" where
  "deliver p (DataReceived now data) w = handle_data_received now data w"
| "deliver p EofReceived w = handle_eof_received w"
| "deliver p ConnectionLost w = handle_connection_lost w"
| "deliver p (Write data) w = handler_write p data w"
| "deliver p Close w = close w"

fun deliver_all :: "pool_obj \<Rightarrow> callback list \<Rightarrow> world \<Rightarrow> world" where
  "deliver_all p [] w = w"
| "deliver_all p (c # cs) w = deliver_all p cs (deliver p c w)"

subsection \<open>Observations on a handler and on its effects\<close>

text \<open>Whether the \<^verbatim>\<open>close()\<close> of the handler's transport, if it has one, returns.\<close>

definition transport_close_returns :: "handler \<Rightarrow> bool" where
  "transport_close_returns h =
     (case transport h of
        None \<Rightarrow> True
      | Some t \<Rightarrow> (case t_close t of None \<Rightarrow> True | Some e \<Rightarrow> False))"




text \<open>
  What a round of the loop of \<^verbatim>\<open>_handle_stage_connect\<close> leaves behind when it has not
  seen STREAM: the sleep after CONNECT, or the debug line of the last branch.
\<close>

definition poll_event :: "event \<Rightarrow> bool" where
  "poll_event e = (e = Sleep 0.2 \<or> e = Log Debug ''some error happed stage'')"

text \<open>What \<^verbatim>\<open>self._remote.write(data)\<close> inside a \<^verbatim>\<open>try\<close> with a bare \<^verbatim>\<open>except\<close> leaves behind.\<close>

definition forwarded :: "bytes \<Rightarrow> handler \<Rightarrow> event" where
  "forwarded data h =
     (case remote h of
        None \<Rightarrow> CaptureException
      | Some r \<Rightarrow>
          (case r_write r data of None \<Rightarrow> RemoteWrite data | Some e \<Rightarrow> CaptureException))"

text \<open>
  Effects that hand nothing on: a log line, an exception report, the close of the client
  transport. No task is scheduled, no connection attempted and nothing written.
\<close>

definition quiet :: "event \<Rightarrow> bool" where
  "quiet e =
     (case e of
        Log l s \<Rightarrow> True
      | CaptureException \<Rightarrow> True
      | TransportClose \<Rightarrow> True
      | _ \<Rightarrow> False)"

text \<open>
  Effects that give data to the outbound peer: a write to the remote, and the creation
  of the remote with the payload of the first chunk (\<^verbatim>\<open>RemoteTCP\<close> in
  \<^verbatim>\<open>create_connection\<close>, \<^verbatim>\<open>RemoteUDP\<close> in \<^verbatim>\<open>create_datagram_endpoint\<close>).
\<close>

definition hands_over :: "event \<Rightarrow> bool" where
  "hands_over e =
     (case e of
        RemoteWrite d \<Rightarrow> True
      | CreateConnection a p d \<Rightarrow> True
      | EnsureFuture t \<Rightarrow> (case t of UdpEndpoint a p d \<Rightarrow> True | _ \<Rightarrow> False)
      | _ \<Rightarrow> False)"

text \<open>The effects of callbacks on a handler whose connection was never made.\<close>

definition idle_event :: "event \<Rightarrow> bool" where
  "idle_event e =
     (e = CaptureException \<or> e = Log Debug ''eof received'' \<or> e = Log Debug ''lost exc'')"

section \<open>Concrete objects\<close>

text \<open>Objects on which the functions above are run in the closed theorems below.\<close>

definition ok_transport :: transport_obj where
  "ok_transport =
     \<lparr>t_close = None, t_write = (\<lambda>_. None), t_sendto = (\<lambda>_ _. None),
      t_peername = Some (''10.0.0.7'', 40000)\<rparr>"

definition full_transport :: transport_obj where
  "full_transport = ok_transport\<lparr>t_write := (\<lambda>_. Some MemoryError)\<rparr>"

definition ok_remote :: remote_obj where
  "ok_remote = \<lparr>r_write = (\<lambda>_. None), r_close = None\<rparr>"

definition failing_cipher :: cipher_obj where
  "failing_cipher = \<lparr>cipher_encrypt = Inr, cipher_decrypt = (\<lambda>_. Inl ValueError)\<rparr>"

definition plain_cipher :: cipher_obj where
  "plain_cipher = \<lparr>cipher_encrypt = Inr, cipher_decrypt = Inr\<rparr>"

text \<open>A cipher whose ciphertext carries two bytes of framing in front of the plaintext.\<close>

definition framed_cipher :: cipher_obj where
  "framed_cipher =
     \<lparr>cipher_encrypt = (\<lambda>plain. Inr (0 # 0 # plain)),
      cipher_decrypt = (\<lambda>data. if length data < 2 then Inl ValueError else Inr (drop 2 data))\<rparr>"

definition no_ciphers :: cipher_lib where
  "no_ciphers =
     \<lparr>AES_SUPPORT_METHODS = [], NONE_SUPPORT_METHODS = [],
      AESCipher = (\<lambda>_ _ _. Inl OtherError), NONECipher = (\<lambda>_ _ _. Inl OtherError)\<rparr>"

definition admit_all :: pool_obj where
  "admit_all = \<lparr>filter_user = (\<lambda>_. True)\<rparr>"

definition reject_all :: pool_obj where
  "reject_all = \<lparr>filter_user = (\<lambda>_. False)\<rparr>"

definition example_user :: user_obj where
  "example_user = \<lparr>user_id = 7, tcp_count = 2, once_used_u = 0, once_used_d = 0\<rparr>"

definition fresh_handler :: handler where
  "fresh_handler = LocalHandler_init ''aes-256-cfb'' ''secret'' example_user 0"

text \<open>A transport whose \<^verbatim>\<open>close()\<close> raises.\<close>

definition stuck_transport :: transport_obj where
  "stuck_transport = ok_transport\<lparr>t_close := Some OSError\<rparr>"

text \<open>Other tasks that establish the outbound connection during the sleep of round \<open>k\<close>.\<close>

definition established_in_round :: "nat \<Rightarrow> remote_obj \<Rightarrow> nat \<Rightarrow> handler \<Rightarrow> handler" where
  "established_in_round k r i h =
     (if i = k then h\<lparr>remote := Some r, stage := STAGE_STREAM\<rparr> else h)"

text \<open>A TCP handler as \<^verbatim>\<open>handle_tcp_connection_made\<close> leaves its attributes.\<close>

definition tcp_handler :: handler where
  "tcp_handler =
     fresh_handler
       \<lparr>transport := Some ok_transport, transport_protocol := Some TRANSPORT_TCP,
        peername := t_peername ok_transport, stage := STAGE_INIT\<rparr>"

text \<open>A UDP handler as \<^verbatim>\<open>handle_udp_connection_made\<close> leaves its attributes.\<close>

definition udp_handler :: handler where
  "udp_handler =
     fresh_handler
       \<lparr>transport := Some ok_transport, transport_protocol := Some TRANSPORT_UDP,
        peername := Some (''10.0.0.7'', 40000), stage := STAGE_INIT\<rparr>"

text \<open>A TCP handler with a cipher whose outbound connection is established.\<close>

definition stream_handler :: handler where
  "stream_handler =
     tcp_handler\<lparr>stage := STAGE_STREAM, cryptor := Some plain_cipher, remote := Some ok_remote\<rparr>"

text \<open>A TCP handler with a cipher, after an outbound connection attempt that failed.\<close>

definition destroyed_handler :: handler where
  "destroyed_handler = tcp_handler\<lparr>stage := STAGE_DESTROY, cryptor := Some plain_cipher\<rparr>"

text \<open>The address type tags of the SOCKS5 address format.\<close>

definition socks_flag :: protocol_flag where
  "socks_flag = \<lparr>ATYPE_IPV4 = 1, ATYPE_IPV6 = 4, ATYPE_DOMAINNAME = 3\<rparr>"

text \<open>Rounds of the supervision task during which nothing else touches the handler.\<close>

definition ticks :: "real list \<Rightarrow> (real \<times> (handler \<Rightarrow> handler)) list" where
  "ticks ts = map (\<lambda>t. (t, id)) ts"

text \<open>
  A handler constructed at time 0 whose TCP connection is made at once, supervised for
  the rounds at times 1 to 5, and then closed by an end of input.
\<close>

definition closed_early :: world where
  "closed_early =
     handle_eof_received
       (snd (keep_alive (ticks [1, 2, 3, 4, 5])
               (handle_tcp_connection_made admit_all no_ciphers ok_transport
                  (fresh_handler, []))))"

section \<open>Properties\<close>

lemmas stage_defs =
  STAGE_INIT_def STAGE_CONNECT_def STAGE_STREAM_def STAGE_DESTROY_def STAGE_ERROR_def

lemmas object_defs =
  ok_transport_def full_transport_def ok_remote_def failing_cipher_def plain_cipher_def
  framed_cipher_def no_ciphers_def admit_all_def reject_all_def example_user_def
  fresh_handler_def tcp_handler_def socks_flag_def ticks_def LocalHandler_init_def
  stuck_transport_def established_in_round_def destroyed_handler_def udp_handler_def
  stream_handler_def

subsection \<open>A chunk that does not decrypt\<close>

text \<open>
  Claim C1 says that a chunk whose decryption fails closes the connection and is then
  dropped: the upload counter keeps its value and no stage handler is dispatched. The
  code closes and then goes on. On a TCP handler in stage INIT whose cipher rejects the
  chunk \<open>[1, 2, 3]\<close>, the handler logs, closes the transport, adds 3 (the length of the
  bytes as received) to \<open>once_used_u\<close> and schedules \<^verbatim>\<open>_handle_stage_init\<close> on those
  bytes.
\<close>

theorem decrypt_failure_goes_on:
  "snd (handle_data_received 0 [1, 2, 3] (tcp_handler\<lparr>cryptor := Some failing_cipher\<rparr>, [])) =
     [Log Warning ''decrypt data error'', TransportClose, EnsureFuture (StageInit [1, 2, 3])]
   \<and> once_used_u (user (fst (handle_data_received 0 [1, 2, 3]
        (tcp_handler\<lparr>cryptor := Some failing_cipher\<rparr>, [])))) = 3
   \<and> once_used_u (user tcp_handler) = 0"
  by (simp add: handle_data_received_def decrypt_def dispatch_def close_def emit_def upd_def
      dec_tcp_count_def add_once_used_u_def object_defs stage_defs)

subsection \<open>A write for a user who is not admitted\<close>

text \<open>
  Claim C2 says that a write for a user who fails the admission check closes the
  transport and writes nothing, and that on TCP \<open>once_used_d\<close> does not grow. The code
  closes and then goes on: on a TCP handler the two bytes \<open>[7, 8]\<close> are written to the
  transport after its close, and \<open>once_used_d\<close> grows from 0 to 2.
\<close>

theorem rejected_write_still_writes:
  "snd (handler_write reject_all [7, 8] (tcp_handler, [])) =
     [TransportClose, TransportWrite [7, 8]]
   \<and> once_used_d (user (fst (handler_write reject_all [7, 8] (tcp_handler, [])))) = 2
   \<and> once_used_d (user tcp_handler) = 0"
  by (simp add: handler_write_def close_def emit_def upd_def dec_tcp_count_def
      add_once_used_d_def object_defs stage_defs)

subsection \<open>Cipher construction in the connection-made callbacks\<close>

text \<open>
  Called with all three arguments, the constructor raises \<^verbatim>\<open>NotImplementedError\<close> for a
  method that neither family lists, and the inner handler of the callbacks answers that
  exception with the warning and \<^verbatim>\<open>close()\<close>.
\<close>

lemma Cryptor_init_unsupported:
  "\<not> List.member (AES_SUPPORT_METHODS lib) m \<Longrightarrow> \<not> List.member (NONE_SUPPORT_METHODS lib) m \<Longrightarrow>
   Cryptor_init lib m pw fl = Inl NotImplementedError"
  by (simp add: Cryptor_init_def register_chipher_def)

lemma cryptor_made_unsupported:
  "cryptor_made (Inl NotImplementedError) made w =
     close (emit (Log Warning ''not support cipher'') w)"
  by (simp add: cryptor_made_def)

text \<open>The call with two arguments never reaches the constructor's body.\<close>

lemma Cryptor_call_two_arguments: "Cryptor_call lib m pw None = Inl TypeError"
  by (simp add: Cryptor_call_def)

text \<open>
  Claim C3 says that a failing cipher construction closes the connection and logs a
  warning, and does not leave the callback. Both callbacks call the constructor with two
  arguments where it requires three, so the construction fails in every call, with a
  \<^verbatim>\<open>TypeError\<close>: the handler for \<^verbatim>\<open>NotImplementedError\<close> is passed over and the
  bare \<^verbatim>\<open>except\<close> reports the exception. For every cipher library, transport and
  handler, an admitted TCP connection and a UDP connection end with the attributes set,
  no cryptor, no warning and no close.
\<close>

theorem cipher_failure_not_closed:
  "handle_tcp_connection_made admit_all lib t (h, []) =
     (h\<lparr>stage := STAGE_INIT, transport_protocol := Some TRANSPORT_TCP,
        transport := Some t, peername := t_peername t\<rparr>,
      [EnsureFuture KeepAlive, CaptureException])
   \<and> handle_udp_connection_made lib t pn (h, []) =
     (h\<lparr>stage := STAGE_INIT, transport := Some t,
        transport_protocol := Some TRANSPORT_UDP, peername := pn\<rparr>,
      [CaptureException])"
  by (simp add: handle_tcp_connection_made_def handle_udp_connection_made_def make_cryptor_def
      cryptor_made_def Cryptor_call_def emit_def upd_def admit_all_def)

subsection \<open>The supervision task after an early close\<close>

text \<open>
  Claim C4 says that the supervision task calls \<^verbatim>\<open>close()\<close> at most once, exactly once
  for a connection idle for more than 20 time units, that it ends when the transport
  reference is absent, and that it does not keep running once the connection has been
  closed before the timeout. \<^verbatim>\<open>close()\<close> never clears the transport reference, so the
  loop condition stays true after a close. In \<open>closed_early\<close> the connection is closed
  after time 5; the task is still running after the rounds at times 6 to 20, and in the
  round at time 21 it closes the connection a second time, which takes a second
  connection off the user's \<open>tcp_count\<close>.
\<close>

theorem supervision_outlives_close:
  "snd closed_early =
     [EnsureFuture KeepAlive, CaptureException, Sleep 1, Sleep 1, Sleep 1, Sleep 1, Sleep 1,
      Log Debug ''eof received'', TransportClose]
   \<and> tcp_count (user (fst closed_early)) = 1
   \<and> \<not> fst (keep_alive (ticks [6, 7, 8, 9, 10, 11, 12, 13, 14, 15, 16, 17, 18, 19, 20])
             closed_early)
   \<and> fst (keep_alive (ticks [6, 7, 8, 9, 10, 11, 12, 13, 14, 15, 16, 17, 18, 19, 20, 21])
           closed_early)
   \<and> count_list
       (snd (snd (keep_alive
          (ticks [6, 7, 8, 9, 10, 11, 12, 13, 14, 15, 16, 17, 18, 19, 20, 21]) closed_early)))
       TransportClose = 2
   \<and> tcp_count (user (fst (snd (keep_alive
          (ticks [6, 7, 8, 9, 10, 11, 12, 13, 14, 15, 16, 17, 18, 19, 20, 21]) closed_early)))) = 0"
  by (simp add: closed_early_def keep_alive_def handle_tcp_connection_made_def make_cryptor_def
      cryptor_made_def Cryptor_call_def handle_eof_received_def close_def emit_def upd_def
      dec_tcp_count_def object_defs stage_defs)

subsection \<open>A domain name longer than the buffer\<close>

lemma unpack_H_short: "length b < 2 \<Longrightarrow> unpack_H b = Inl StructError"
  by (auto simp: unpack_H_def split: list.splits)

text \<open>
  Claim C5 says that a first payload with the DomainName tag whose length byte \<open>N\<close>
  exceeds the bytes that follow it is rejected: the connection is closed and no address
  and port are produced. The code produces no address and no port, and does not close:
  the slice for the port is empty, \<^verbatim>\<open>struct.unpack\<close> raises, and the bare
  \<^verbatim>\<open>except\<close> of \<^verbatim>\<open>_handle_stage_init\<close> reports the exception and returns. On the
  payload \<open>[3, 5, 97, 98]\<close> a TCP handler has no \<open>TransportClose\<close> among its effects and
  stays in stage INIT.
\<close>

theorem domain_overrun_not_closed:
  "TransportClose \<notin> set (snd (snd (handle_stage_init_begin socks_flag [3, 5, 97, 98]
       (tcp_handler, []))))
   \<and> stage (fst (snd (handle_stage_init_begin socks_flag [3, 5, 97, 98] (tcp_handler, []))))
       = STAGE_INIT"
  by (simp add: handle_stage_init_begin_def parse_header_def unpack_H_def slice_def emit_def
      object_defs)

text \<open>
  Claim C5 as amended: for a payload whose first byte is the DomainName tag (and not also
  the IPv4 or IPv6 tag, which are tested first) and whose length byte exceeds the number
  of bytes after it, parsing produces no address and no port but raises, and
  \<^verbatim>\<open>_handle_stage_init\<close> returns with the exception reported as its only effect: the
  handler keeps all its attributes, no connection attempt is made and nothing is closed.
\<close>

theorem domain_overrun_rejected:
  assumes "unat atype \<noteq> ATYPE_IPV4 flg" and "unat atype \<noteq> ATYPE_IPV6 flg"
    and "unat atype = ATYPE_DOMAINNAME flg" and "length rest < unat n"
  shows "parse_header flg (atype # n # rest) = ParseRaised StructError
    \<and> handle_stage_init_begin flg (atype # n # rest) w = (InitReturned, emit CaptureException w)"
proof -
  have "length (slice (2 + unat n) (2 + unat n + 2) (atype # n # rest)) < 2"
    using assms(4) by (simp add: slice_def)
  then have "unpack_H (slice (2 + unat n) (2 + unat n + 2) (atype # n # rest)) = Inl StructError"
    by (rule unpack_H_short)
  then have "parse_header flg (atype # n # rest) = ParseRaised StructError"
    using assms(1-3) by (simp add: parse_header_def Let_def)
  then show ?thesis by (simp add: handle_stage_init_begin_def)
qed

theorem domain_overrun_rejected_witness:
  "unat (3 :: 8 word) \<noteq> ATYPE_IPV4 socks_flag \<and> unat (3 :: 8 word) \<noteq> ATYPE_IPV6 socks_flag
   \<and> unat (3 :: 8 word) = ATYPE_DOMAINNAME socks_flag
   \<and> length [97, 98 :: 8 word] < unat (5 :: 8 word)
   \<and> parse_header socks_flag [3, 5, 97, 98] = ParseRaised StructError
   \<and> handle_stage_init_begin socks_flag [3, 5, 97, 98] (tcp_handler, []) =
       (InitReturned, (tcp_handler, [CaptureException]))"
  using domain_overrun_rejected [of 3 socks_flag "[97, 98]" 5 "(tcp_handler, [])"]
  by (simp add: socks_flag_def emit_def)

subsection \<open>The count of TCP connections\<close>

lemma close_tcp_count:
  "tcp_count (user (fst (close w))) =
     (if transport_protocol (fst w) = Some TRANSPORT_TCP \<and> transport_close_returns (fst w) \<and>
         0 < tcp_count (user (fst w))
      then tcp_count (user (fst w)) - 1 else tcp_count (user (fst w)))"
  by (simp add: close_def transport_close_returns_def upd_def emit_def dec_tcp_count_def
      split: option.splits transport_kind.splits)

lemma close_tcp_count_nonneg:
  "0 \<le> tcp_count (user (fst w)) \<Longrightarrow> 0 \<le> tcp_count (user (fst (close w)))"
  by (simp add: close_tcp_count)

text \<open>
  Claim C6 says that an established outbound connection adds exactly 1 to \<open>tcp_count\<close>,
  that each \<^verbatim>\<open>close()\<close> takes exactly 1 off, and that the count never goes below 0,
  also over two calls of \<^verbatim>\<open>close()\<close>. The decrement follows
  \<^verbatim>\<open>self._transport.close()\<close> inside the same \<^verbatim>\<open>try\<close>: on a TCP handler whose user
  has two counted connections and whose transport raises in \<^verbatim>\<open>close()\<close>, the exception
  is reported and the count stays 2.
\<close>

theorem close_raising_keeps_count:
  "tcp_count (user (fst (close (tcp_handler\<lparr>transport := Some stuck_transport\<rparr>, [])))) \<noteq>
     tcp_count (user (tcp_handler\<lparr>transport := Some stuck_transport\<rparr>)) - 1
   \<and> tcp_count (user (tcp_handler\<lparr>transport := Some stuck_transport\<rparr>)) = 2
   \<and> tcp_count (user (fst (close (tcp_handler\<lparr>transport := Some stuck_transport\<rparr>, [])))) = 2
   \<and> snd (close (tcp_handler\<lparr>transport := Some stuck_transport\<rparr>, [])) = [CaptureException]"
  by (simp add: close_def upd_def emit_def dec_tcp_count_def object_defs)

text \<open>
  Claim C6 as amended: an established outbound connection adds exactly 1 to
  \<open>tcp_count\<close>; a \<^verbatim>\<open>close()\<close> of a TCP handler whose transport closes without raising
  takes exactly 1 off the count, but not below 0; a \<^verbatim>\<open>close()\<close> of a TCP handler whose
  transport raises in \<^verbatim>\<open>close()\<close> leaves the count as it is; a count that is not
  negative stays so over one \<^verbatim>\<open>close()\<close> and over two.
\<close>

theorem tcp_count_open_close:
  "tcp_count (user (fst (handle_stage_init_resume (Established r) w))) =
     tcp_count (user (fst w)) + 1
   \<and> (transport_protocol (fst w) = Some TRANSPORT_TCP \<and> transport_close_returns (fst w) \<and>
       0 \<le> tcp_count (user (fst w)) \<longrightarrow>
      tcp_count (user (fst (close w))) = max 0 (tcp_count (user (fst w)) - 1))
   \<and> (transport_protocol (fst w) = Some TRANSPORT_TCP \<and> transport (fst w) = Some t \<and>
       t_close t = Some e \<longrightarrow>
      tcp_count (user (fst (close w))) = tcp_count (user (fst w)))
   \<and> (0 \<le> tcp_count (user (fst w)) \<longrightarrow>
        0 \<le> tcp_count (user (fst (close w))) \<and>
        0 \<le> tcp_count (user (fst (close (close w)))))"
  by (auto simp: close_tcp_count_nonneg close_tcp_count handle_stage_init_resume_def upd_def
      emit_def inc_tcp_count_def transport_close_returns_def)

theorem tcp_count_open_close_witness:
  "transport_protocol tcp_handler = Some TRANSPORT_TCP \<and> transport_close_returns tcp_handler
   \<and> tcp_count (user tcp_handler) = 2
   \<and> tcp_count (user (fst (handle_stage_init_resume (Established ok_remote) (tcp_handler, [])))) = 3
   \<and> tcp_count (user (fst (close (tcp_handler, [])))) = 1
   \<and> tcp_count (user (fst (close (close (tcp_handler, []))))) = 0
   \<and> tcp_count (user (fst (close (close (close (tcp_handler, [])))))) = 0
   \<and> transport (tcp_handler\<lparr>transport := Some stuck_transport\<rparr>) = Some stuck_transport
   \<and> t_close stuck_transport = Some OSError
   \<and> tcp_count (user (fst (close (tcp_handler\<lparr>transport := Some stuck_transport\<rparr>, [])))) = 2"
proof -
  have a: "transport_protocol tcp_handler = Some TRANSPORT_TCP" "transport_close_returns tcp_handler"
    "tcp_count (user tcp_handler) = 2"
    "transport (tcp_handler\<lparr>transport := Some stuck_transport\<rparr>) = Some stuck_transport"
    "t_close stuck_transport = Some OSError"
    "transport_protocol (tcp_handler\<lparr>transport := Some stuck_transport\<rparr>) = Some TRANSPORT_TCP"
    "tcp_count (user (tcp_handler\<lparr>transport := Some stuck_transport\<rparr>)) = 2"
    by (simp_all add: transport_close_returns_def object_defs)
  have b: "tcp_count (user (fst (handle_stage_init_resume (Established ok_remote) (tcp_handler, [])))) = 3"
    "tcp_count (user (fst (close (tcp_handler, [])))) = 1"
    using a tcp_count_open_close [where w = "(tcp_handler, [])" and r = ok_remote] by simp_all
  have c: "tcp_count (user (fst (close (tcp_handler\<lparr>transport := Some stuck_transport\<rparr>, [])))) = 2"
    using a tcp_count_open_close [where w = "(tcp_handler\<lparr>transport := Some stuck_transport\<rparr>, [])"
        and t = stuck_transport and e = OSError] by simp
  have d: "tcp_count (user (fst (close (close (tcp_handler, []))))) = 0"
    "tcp_count (user (fst (close (close (close (tcp_handler, [])))))) = 0"
    by (simp_all add: close_def upd_def emit_def dec_tcp_count_def object_defs)
  from a b c d show ?thesis by simp
qed

subsection \<open>Waiting for the outbound connection\<close>

lemma remote_write_eq: "remote_write data w = (fst w, snd w @ [forwarded data (fst w)])"
  by (simp add: remote_write_def forwarded_def emit_def split: option.splits)

text \<open>
  The effects of the loop: some rounds that did not see STREAM, and then either the
  timeout warning after the last round, or the round that saw STREAM with its write.
\<close>

lemma connect_loop_shape:
  "\<exists>polls. list_all poll_event polls \<and>
     (length polls = length rounds \<and>
        snd (connect_loop env data rounds w) =
          snd w @ polls @ [Log Warning ''time out to connect remote stage'']
      \<or> length polls < length rounds \<and>
        stage (fst (connect_loop env data rounds w)) = STAGE_STREAM \<and>
        snd (connect_loop env data rounds w) =
          snd w @ polls @ [Log Debug ''connection established'',
                           forwarded data (fst (connect_loop env data rounds w))])"
proof (induction rounds arbitrary: w)
  case Nil
  show ?case by (simp add: emit_def)
next
  case (Cons i rounds)
  show ?case
  proof (cases "stage (fst w) = STAGE_CONNECT")
    case True
    let ?w = "upd (env i) (emit (Sleep 0.2) w)"
    from Cons.IH [of ?w] obtain polls where p: "list_all poll_event polls"
      and d: "length polls = length rounds \<and>
        snd (connect_loop env data rounds ?w) =
          snd ?w @ polls @ [Log Warning ''time out to connect remote stage'']
      \<or> length polls < length rounds \<and>
        stage (fst (connect_loop env data rounds ?w)) = STAGE_STREAM \<and>
        snd (connect_loop env data rounds ?w) =
          snd ?w @ polls @ [Log Debug ''connection established'',
                           forwarded data (fst (connect_loop env data rounds ?w))]"
      by blast
    have s: "snd ?w = snd w @ [Sleep 0.2]" by (simp add: upd_def emit_def)
    have c: "connect_loop env data (i # rounds) w = connect_loop env data rounds ?w"
      using True by simp
    have "list_all poll_event (Sleep 0.2 # polls)" using p by (simp add: poll_event_def)
    with d s c show ?thesis
      by (intro exI [of _ "Sleep 0.2 # polls"]) auto
  next
    case False
    show ?thesis
    proof (cases "stage (fst w) = STAGE_STREAM")
      case True
      then have "connect_loop env data (i # rounds) w =
          (fst w, snd w @ [Log Debug ''connection established'', forwarded data (fst w)])"
        using False by (simp add: remote_write_eq emit_def)
      with True show ?thesis by (intro exI [of _ "[]"]) simp
    next
      case nstream: False
      let ?e = "Log Debug ''some error happed stage''"
      let ?w = "emit ?e w"
      from Cons.IH [of ?w] obtain polls where p: "list_all poll_event polls"
        and d: "length polls = length rounds \<and>
          snd (connect_loop env data rounds ?w) =
            snd ?w @ polls @ [Log Warning ''time out to connect remote stage'']
        \<or> length polls < length rounds \<and>
          stage (fst (connect_loop env data rounds ?w)) = STAGE_STREAM \<and>
          snd (connect_loop env data rounds ?w) =
            snd ?w @ polls @ [Log Debug ''connection established'',
                             forwarded data (fst (connect_loop env data rounds ?w))]"
        by blast
      have s: "snd ?w = snd w @ [?e]" by (simp add: emit_def)
      have c: "connect_loop env data (i # rounds) w = connect_loop env data rounds ?w"
        using False nstream by simp
      have "list_all poll_event (?e # polls)" using p by (simp add: poll_event_def)
      with d s c show ?thesis
        by (intro exI [of _ "?e # polls"]) auto
    qed
  qed
qed









subsection \<open>What \<^verbatim>\<open>close()\<close> touches\<close>

lemma close_events: "\<exists>new. close w = (fst (close w), snd w @ new) \<and> list_all quiet new"
  by (auto simp: close_def emit_def upd_def quiet_def split: option.splits transport_kind.splits
      intro: exI [of _ "[]"])

lemma close_snd: "\<exists>new. snd (close w) = snd w @ new \<and> list_all quiet new"
  using close_events [of w] by (metis snd_conv)

lemma close_keeps [simp]:
  "stage (fst (close w)) = stage (fst w)"
  "remote (fst (close w)) = remote (fst w)"
  "cryptor (fst (close w)) = cryptor (fst w)"
  "transport (fst (close w)) = transport (fst w)"
  "transport_protocol (fst (close w)) = transport_protocol (fst w)"
  "once_used_u (user (fst (close w))) = once_used_u (user (fst w))"
  "once_used_d (user (fst (close w))) = once_used_d (user (fst w))"
  "user_id (user (fst (close w))) = user_id (user (fst w))"
  by (simp_all add: close_def emit_def upd_def dec_tcp_count_def
      split: option.splits transport_kind.splits)

lemma dispatch_destroy:
  assumes "stage (fst w) = STAGE_DESTROY"
  shows "dispatch now data w =
     (add_once_used_u (int (length data)) (fst w), snd w @ [Log Warning ''unknown stage''])"
  using assms by (simp add: dispatch_def Let_def upd_def emit_def add_once_used_u_def stage_defs)

subsection \<open>What reaches the outbound peer\<close>

lemma quiet_keeps: "list_all quiet new \<Longrightarrow> \<not> list_ex hands_over new"
  by (auto simp: list_all_iff list_ex_iff quiet_def hands_over_def split: event.splits)

lemma dispatch_keeps:
  assumes "stage (fst w) \<noteq> STAGE_STREAM"
  shows "\<exists>new. snd (dispatch now data w) = snd w @ new \<and> \<not> list_ex hands_over new"
proof -
  let ?w = "upd (add_once_used_u (int (length data))) w"
  have s: "stage (fst ?w) = stage (fst w)" "snd ?w = snd w"
    by (simp_all add: upd_def add_once_used_u_def)
  obtain new where n: "snd (close ?w) = snd ?w @ new" "list_all quiet new"
    using close_snd [of ?w] by blast
  show ?thesis
    using assms s n quiet_keeps [OF n(2)]
    by (auto simp: dispatch_def Let_def emit_def handle_stage_error_def hands_over_def)
qed

lemma data_received_keeps:
  assumes "stage (fst w) \<noteq> STAGE_STREAM"
  shows "\<exists>new. snd (handle_data_received now data w) = snd w @ new \<and> \<not> list_ex hands_over new"
proof (cases "cryptor (fst w)")
  case None
  then show ?thesis
    by (auto simp: handle_data_received_def emit_def hands_over_def)
next
  case (Some c)
  show ?thesis
  proof (cases "decrypt c data")
    case (Inr plain)
    with Some dispatch_keeps [OF assms, of now plain] show ?thesis
      by (simp add: handle_data_received_def)
  next
    case (Inl e)
    let ?l = "emit (Log Warning ''decrypt data error'') w"
    let ?w = "close ?l"
    obtain c1 where c1: "snd ?w = snd ?l @ c1" "list_all quiet c1"
      using close_snd [of ?l] by blast
    have st: "stage (fst ?w) \<noteq> STAGE_STREAM" using assms by (simp add: emit_def)
    obtain new where n: "snd (dispatch now data ?w) = snd ?w @ new" "\<not> list_ex hands_over new"
      using dispatch_keeps [OF st, of now data] by blast
    show ?thesis
    proof (cases "e = RuntimeError")
      case True
      with Some Inl have "handle_data_received now data w = dispatch now data ?w"
        by (simp add: handle_data_received_def)
      with n c1 quiet_keeps [OF c1(2)] show ?thesis
        by (intro exI [of _ "Log Warning ''decrypt data error'' # c1 @ new"])
           (simp add: emit_def hands_over_def)
    next
      case False
      with Some Inl have "handle_data_received now data w = emit CaptureException w"
        by (simp add: handle_data_received_def)
      then show ?thesis by (auto simp: emit_def hands_over_def)
    qed
  qed
qed

lemma poll_not_hands: "list_all poll_event polls \<Longrightarrow> filter hands_over polls = []"
  by (induction polls) (auto simp: poll_event_def hands_over_def)

lemma forwarded_hands:
  "filter hands_over [forwarded data h] = [] \<or> filter hands_over [forwarded data h] = [RemoteWrite data]"
  by (simp add: forwarded_def hands_over_def split: option.splits)

lemma connect_hands_over:
  "\<exists>new. snd (handle_stage_connect env data w) = snd w @ new \<and>
     (filter hands_over new = [] \<or>
      filter hands_over new = [RemoteWrite data] \<and>
        stage (fst (handle_stage_connect env data w)) = STAGE_STREAM)"
proof -
  let ?w = "emit (Log Debug ''wait until the connection established'') w"
  let ?r = "connect_loop env data [0..<25] ?w"
  have r: "handle_stage_connect env data w = ?r" by (simp add: handle_stage_connect_def)
  obtain polls where p: "list_all poll_event polls"
    and d: "length polls = length [0..<25] \<and>
        snd ?r = snd ?w @ polls @ [Log Warning ''time out to connect remote stage'']
      \<or> length polls < length [0..<25] \<and> stage (fst ?r) = STAGE_STREAM \<and>
        snd ?r = snd ?w @ polls @ [Log Debug ''connection established'', forwarded data (fst ?r)]"
    using connect_loop_shape [where env = env and data = data and rounds = "[0..<25]" and w = ?w]
    by blast
  from d show ?thesis
  proof
    assume a: "length polls = length [0..<25] \<and>
        snd ?r = snd ?w @ polls @ [Log Warning ''time out to connect remote stage'']"
    show ?thesis unfolding r
      using a poll_not_hands [OF p]
      by (intro exI [of _ "Log Debug ''wait until the connection established'' # polls @
            [Log Warning ''time out to connect remote stage'']"])
         (simp add: emit_def hands_over_def)
  next
    assume a: "length polls < length [0..<25] \<and> stage (fst ?r) = STAGE_STREAM \<and>
        snd ?r = snd ?w @ polls @ [Log Debug ''connection established'', forwarded data (fst ?r)]"
    show ?thesis unfolding r
      using a poll_not_hands [OF p] forwarded_hands [of data "fst ?r"]
      by (intro exI [of _ "Log Debug ''wait until the connection established'' # polls @
            [Log Debug ''connection established'', forwarded data (fst ?r)]"])
         (auto simp: emit_def hands_over_def)
  qed
qed

lemma init_begin_tcp:
  "parse_header flg data = Parsed a prt payload \<Longrightarrow>
   transport_protocol (fst w) = Some TRANSPORT_TCP \<Longrightarrow>
   handle_stage_init_begin flg data w =
     (InitAwaiting, (fst w)\<lparr>stage := STAGE_CONNECT\<rparr>, snd w @ [CreateConnection a prt payload])"
  by (simp add: handle_stage_init_begin_def emit_def upd_def)

lemma init_begin_udp:
  "parse_header flg data = Parsed a prt payload \<Longrightarrow>
   transport_protocol (fst w) = Some TRANSPORT_UDP \<Longrightarrow>
   handle_stage_init_begin flg data w =
     (InitReturned, (fst w)\<lparr>stage := STAGE_INIT\<rparr>,
      snd w @ [EnsureFuture (UdpEndpoint a prt payload)])"
  by (simp add: handle_stage_init_begin_def emit_def upd_def)

lemma init_resume_quiet:
  "\<exists>new. snd (handle_stage_init_resume res w) = snd w @ new \<and> list_all quiet new"
proof -
  obtain n1 where n1: "snd (close (emit (Log Debug ''connection faild'') w)) =
      snd (emit (Log Debug ''connection faild'') w) @ n1" "list_all quiet n1"
    using close_snd by blast
  obtain n2 where n2: "snd (close (emit (Log Warning ''connection failed'') w)) =
      snd (emit (Log Warning ''connection failed'') w) @ n2" "list_all quiet n2"
    using close_snd by blast
  show ?thesis using n1 n2
    by (cases res) (auto simp: handle_stage_init_resume_def emit_def upd_def quiet_def)
qed

lemma data_received_destroy_any:
  assumes "stage (fst w) = STAGE_DESTROY"
  shows "stage (fst (handle_data_received now data w)) = STAGE_DESTROY
    \<and> remote (fst (handle_data_received now data w)) = remote (fst w)
    \<and> (\<exists>new. snd (handle_data_received now data w) = snd w @ new \<and> list_all quiet new)"
proof (cases "cryptor (fst w)")
  case None
  then show ?thesis using assms by (simp add: handle_data_received_def emit_def quiet_def)
next
  case (Some c)
  show ?thesis
  proof (cases "decrypt c data")
    case (Inr plain)
    with Some assms show ?thesis
      by (simp add: handle_data_received_def dispatch_destroy quiet_def add_once_used_u_def)
  next
    case (Inl e)
    let ?l = "emit (Log Warning ''decrypt data error'') w"
    let ?w = "close ?l"
    obtain c1 where c1: "snd ?w = snd ?l @ c1" "list_all quiet c1"
      using close_snd [of ?l] by blast
    have st: "stage (fst ?w) = STAGE_DESTROY" using assms by (simp add: emit_def)
    have rm: "remote (fst ?w) = remote (fst w)" by (simp add: emit_def)
    have dd: "dispatch now data ?w =
        (add_once_used_u (int (length data)) (fst ?w), snd ?w @ [Log Warning ''unknown stage''])"
      by (rule dispatch_destroy [OF st])
    show ?thesis
    proof (cases "e = RuntimeError")
      case True
      with Some Inl have h: "handle_data_received now data w = dispatch now data ?w"
        by (simp add: handle_data_received_def)
      have "snd (handle_data_received now data w) =
          snd w @ (Log Warning ''decrypt data error'' # c1 @ [Log Warning ''unknown stage''])"
        unfolding h dd using c1 by (simp add: emit_def)
      moreover have "list_all quiet (Log Warning ''decrypt data error'' # c1 @ [Log Warning ''unknown stage''])"
        using c1 by (simp add: quiet_def)
      ultimately show ?thesis unfolding h dd using st rm
        by (auto simp: add_once_used_u_def)
    next
      case False
      with Some Inl have "handle_data_received now data w = emit CaptureException w"
        by (simp add: handle_data_received_def)
      with assms show ?thesis by (simp add: emit_def quiet_def)
    qed
  qed
qed

lemma data_received_destroy_plain_any:
  assumes "stage (fst w) = STAGE_DESTROY" and "cryptor (fst w) = Some c"
    and "decrypt c data = Inr plain"
  shows "handle_data_received now data w =
     (add_once_used_u (int (length plain)) (fst w), snd w @ [Log Warning ''unknown stage''])"
  using assms by (simp add: handle_data_received_def dispatch_destroy)

lemma data_received_stream:
  assumes "stage (fst w) = STAGE_STREAM" and "cryptor (fst w) = Some c"
    and "decrypt c data = Inr plain"
  shows "snd (handle_data_received now data w) =
     snd w @ [Log Debug ''realy data length'', forwarded plain (fst w)]"
  using assms
  by (simp add: handle_data_received_def dispatch_def Let_def handle_stage_stream_def
      remote_write_eq upd_def emit_def add_once_used_u_def keep_alive_active_def forwarded_def
      stage_defs)

lemma init_begin_unparsed:
  assumes "\<And>a prt payload. parse_header flg data \<noteq> Parsed a prt payload"
  shows "\<exists>new. snd (snd (handle_stage_init_begin flg data w)) = snd w @ new \<and> list_all quiet new"
proof -
  obtain n where n: "snd (close (emit (Log Warning ''unknown atype'') w)) =
      snd (emit (Log Warning ''unknown atype'') w) @ n" "list_all quiet n"
    using close_snd by blast
  show ?thesis using assms n
    by (cases "parse_header flg data")
       (auto simp: handle_stage_init_begin_def emit_def quiet_def)
qed

lemma example_header:
  "parse_header socks_flag [1, 10, 0, 0, 1, 0, 53, 9, 9] = Parsed (AddrIPv4 [10, 0, 0, 1]) 53 [9, 9]"
  by (simp add: parse_header_def inet_ntop_def slice_def unpack_H_def socks_flag_def)

subsection \<open>Relaying and the stages\<close>

text \<open>
  Claim C8 says that data is never forwarded to the outbound peer while the stage is not
  STREAM, and that after stage DESTROY no inbound payload processing is performed on a
  chunk delivered to \<^verbatim>\<open>handle_data_received\<close>. Both parts fail.
  \<^verbatim>\<open>_handle_stage_init\<close> gives the payload that follows the address header to the
  outbound peer when it creates it: on UDP with the datagram endpoint, in stage INIT (a
  UDP handler never leaves INIT), and on TCP with the connection attempt, in stage
  CONNECT. And accounting comes before the dispatch on the stage, so a handler in stage
  DESTROY that has a cipher still decrypts the chunk \<open>[1, 2, 3]\<close> and adds its length to
  \<open>once_used_u\<close>.
\<close>

theorem payload_handed_over_before_stream:
  "stage udp_handler = STAGE_INIT \<and> STAGE_INIT \<noteq> STAGE_STREAM
   \<and> snd (snd (handle_stage_init_begin socks_flag [1, 10, 0, 0, 1, 0, 53, 9, 9] (udp_handler, [])))
       = [EnsureFuture (UdpEndpoint (AddrIPv4 [10, 0, 0, 1]) 53 [9, 9])]
   \<and> stage (fst (snd (handle_stage_init_begin socks_flag [1, 10, 0, 0, 1, 0, 53, 9, 9]
        (udp_handler, [])))) = STAGE_INIT
   \<and> snd (snd (handle_stage_init_begin socks_flag [1, 10, 0, 0, 1, 0, 53, 9, 9] (tcp_handler, [])))
       = [CreateConnection (AddrIPv4 [10, 0, 0, 1]) 53 [9, 9]]
   \<and> stage (fst (snd (handle_stage_init_begin socks_flag [1, 10, 0, 0, 1, 0, 53, 9, 9]
        (tcp_handler, [])))) = STAGE_CONNECT
   \<and> STAGE_CONNECT \<noteq> STAGE_STREAM
   \<and> stage destroyed_handler = STAGE_DESTROY
   \<and> once_used_u (user (fst (handle_data_received 0 [1, 2, 3] (destroyed_handler, [])))) \<noteq>
       once_used_u (user destroyed_handler)
   \<and> once_used_u (user (fst (handle_data_received 0 [1, 2, 3] (destroyed_handler, [])))) = 3"
proof -
  have u: "handle_stage_init_begin socks_flag [1, 10, 0, 0, 1, 0, 53, 9, 9] (udp_handler, []) =
      (InitReturned, udp_handler\<lparr>stage := STAGE_INIT\<rparr>,
       [EnsureFuture (UdpEndpoint (AddrIPv4 [10, 0, 0, 1]) 53 [9, 9])])"
    using init_begin_udp [OF example_header, of "(udp_handler, [])"]
    by (simp add: object_defs)
  have t: "handle_stage_init_begin socks_flag [1, 10, 0, 0, 1, 0, 53, 9, 9] (tcp_handler, []) =
      (InitAwaiting, tcp_handler\<lparr>stage := STAGE_CONNECT\<rparr>,
       [CreateConnection (AddrIPv4 [10, 0, 0, 1]) 53 [9, 9]])"
    using init_begin_tcp [OF example_header, of "(tcp_handler, [])"]
    by (simp add: object_defs)
  have d: "stage destroyed_handler = STAGE_DESTROY"
    "once_used_u (user destroyed_handler) = 0"
    "once_used_u (user (fst (handle_data_received 0 [1, 2, 3] (destroyed_handler, [])))) = 3"
    by (simp_all add: handle_data_received_def decrypt_def dispatch_def upd_def emit_def
        add_once_used_u_def object_defs stage_defs)
  have s: "stage udp_handler = STAGE_INIT" "STAGE_INIT \<noteq> STAGE_STREAM"
    "STAGE_CONNECT \<noteq> STAGE_STREAM"
    by (simp_all add: object_defs stage_defs)
  show ?thesis unfolding u t using d s by simp
qed

text \<open>
  Claim C8 as amended. \<^verbatim>\<open>handle_data_received\<close> outside stage STREAM gives nothing to
  the outbound peer, and in stage STREAM a chunk that decrypts is written to the remote
  once. \<^verbatim>\<open>_handle_stage_connect\<close> gives the outbound peer at most one thing, the write
  of the data it holds, with the stage being STREAM. \<^verbatim>\<open>_handle_stage_init\<close> gives the
  payload of a header that parses to the outbound peer on its creation, on TCP in stage
  CONNECT and on UDP in stage INIT; a header that does not parse, and the part of
  \<^verbatim>\<open>_handle_stage_init\<close> after the \<^verbatim>\<open>await\<close>, have only quiet effects (log lines,
  exception reports, the close of the client transport). In stage DESTROY a chunk leaves
  the stage and the remote reference as they are and has only quiet effects: no stage
  handler is scheduled or run and nothing reaches the outbound peer; a chunk that
  decrypts is still counted in \<open>once_used_u\<close>, and the warning for an unknown stage is
  all that follows.
\<close>

theorem relay_and_stages:
  "(stage (fst w) \<noteq> STAGE_STREAM \<longrightarrow>
      (\<exists>new. snd (handle_data_received now data w) = snd w @ new \<and> \<not> list_ex hands_over new))
   \<and> (stage (fst w) = STAGE_STREAM \<and> cryptor (fst w) = Some c \<and> decrypt c data = Inr plain \<longrightarrow>
      snd (handle_data_received now data w) =
        snd w @ [Log Debug ''realy data length'', forwarded plain (fst w)])
   \<and> (\<exists>new. snd (handle_stage_connect env data w) = snd w @ new \<and>
        (filter hands_over new = [] \<or>
         filter hands_over new = [RemoteWrite data] \<and>
           stage (fst (handle_stage_connect env data w)) = STAGE_STREAM))
   \<and> (parse_header flg data = Parsed a prt payload \<and>
       transport_protocol (fst w) = Some TRANSPORT_TCP \<longrightarrow>
      handle_stage_init_begin flg data w =
        (InitAwaiting, (fst w)\<lparr>stage := STAGE_CONNECT\<rparr>,
         snd w @ [CreateConnection a prt payload]))
   \<and> (parse_header flg data = Parsed a prt payload \<and>
       transport_protocol (fst w) = Some TRANSPORT_UDP \<longrightarrow>
      handle_stage_init_begin flg data w =
        (InitReturned, (fst w)\<lparr>stage := STAGE_INIT\<rparr>,
         snd w @ [EnsureFuture (UdpEndpoint a prt payload)]))
   \<and> ((\<forall>a prt payload. parse_header flg data \<noteq> Parsed a prt payload) \<longrightarrow>
      (\<exists>new. snd (snd (handle_stage_init_begin flg data w)) = snd w @ new \<and> list_all quiet new))
   \<and> (\<exists>new. snd (handle_stage_init_resume res w) = snd w @ new \<and> list_all quiet new)
   \<and> (stage (fst w) = STAGE_DESTROY \<longrightarrow>
      stage (fst (handle_data_received now data w)) = STAGE_DESTROY
      \<and> remote (fst (handle_data_received now data w)) = remote (fst w)
      \<and> (\<exists>new. snd (handle_data_received now data w) = snd w @ new \<and> list_all quiet new))
   \<and> (stage (fst w) = STAGE_DESTROY \<and> cryptor (fst w) = Some c \<and> decrypt c data = Inr plain \<longrightarrow>
      handle_data_received now data w =
        (add_once_used_u (int (length plain)) (fst w), snd w @ [Log Warning ''unknown stage'']))"
proof (intro conjI impI)
  assume "stage (fst w) \<noteq> STAGE_STREAM"
  then show "\<exists>new. snd (handle_data_received now data w) = snd w @ new \<and> \<not> list_ex hands_over new"
    by (rule data_received_keeps)
next
  assume "stage (fst w) = STAGE_STREAM \<and> cryptor (fst w) = Some c \<and> decrypt c data = Inr plain"
  then show "snd (handle_data_received now data w) =
        snd w @ [Log Debug ''realy data length'', forwarded plain (fst w)]"
    by (simp add: data_received_stream)
next
  show "\<exists>new. snd (handle_stage_connect env data w) = snd w @ new \<and>
        (filter hands_over new = [] \<or>
         filter hands_over new = [RemoteWrite data] \<and>
           stage (fst (handle_stage_connect env data w)) = STAGE_STREAM)"
    by (rule connect_hands_over)
next
  assume "parse_header flg data = Parsed a prt payload \<and>
       transport_protocol (fst w) = Some TRANSPORT_TCP"
  then show "handle_stage_init_begin flg data w =
        (InitAwaiting, (fst w)\<lparr>stage := STAGE_CONNECT\<rparr>,
         snd w @ [CreateConnection a prt payload])"
    by (simp add: init_begin_tcp)
next
  assume "parse_header flg data = Parsed a prt payload \<and>
       transport_protocol (fst w) = Some TRANSPORT_UDP"
  then show "handle_stage_init_begin flg data w =
        (InitReturned, (fst w)\<lparr>stage := STAGE_INIT\<rparr>,
         snd w @ [EnsureFuture (UdpEndpoint a prt payload)])"
    by (simp add: init_begin_udp)
next
  assume "\<forall>a prt payload. parse_header flg data \<noteq> Parsed a prt payload"
  then show "\<exists>new. snd (snd (handle_stage_init_begin flg data w)) = snd w @ new \<and> list_all quiet new"
    by (intro init_begin_unparsed) simp
next
  show "\<exists>new. snd (handle_stage_init_resume res w) = snd w @ new \<and> list_all quiet new"
    by (rule init_resume_quiet)
next
  assume d: "stage (fst w) = STAGE_DESTROY"
  show "stage (fst (handle_data_received now data w)) = STAGE_DESTROY"
    using data_received_destroy_any [OF d] by blast
  show "remote (fst (handle_data_received now data w)) = remote (fst w)"
    using data_received_destroy_any [OF d] by blast
  show "\<exists>new. snd (handle_data_received now data w) = snd w @ new \<and> list_all quiet new"
    using data_received_destroy_any [OF d] by blast
next
  assume "stage (fst w) = STAGE_DESTROY \<and> cryptor (fst w) = Some c \<and> decrypt c data = Inr plain"
  then show "handle_data_received now data w =
        (add_once_used_u (int (length plain)) (fst w), snd w @ [Log Warning ''unknown stage''])"
    by (simp add: data_received_destroy_plain_any)
qed

theorem relay_and_stages_witness:
  "stage destroyed_handler = STAGE_DESTROY \<and> stage destroyed_handler \<noteq> STAGE_STREAM
   \<and> cryptor destroyed_handler = Some plain_cipher
   \<and> decrypt plain_cipher [1, 2, 3] = Inr [1, 2, 3]
   \<and> handle_data_received 0 [1, 2, 3] (destroyed_handler, [TransportWrite [1]]) =
        (add_once_used_u 3 destroyed_handler, [TransportWrite [1], Log Warning ''unknown stage''])
   \<and> stage stream_handler = STAGE_STREAM \<and> cryptor stream_handler = Some plain_cipher
   \<and> snd (handle_data_received 0 [1, 2, 3] (stream_handler, [TransportWrite [1]])) =
        [TransportWrite [1], Log Debug ''realy data length'', RemoteWrite [1, 2, 3]]
   \<and> parse_header socks_flag [1, 10, 0, 0, 1, 0, 53, 9, 9] =
        Parsed (AddrIPv4 [10, 0, 0, 1]) 53 [9, 9]
   \<and> transport_protocol tcp_handler = Some TRANSPORT_TCP
   \<and> handle_stage_init_begin socks_flag [1, 10, 0, 0, 1, 0, 53, 9, 9] (tcp_handler, []) =
        (InitAwaiting, tcp_handler\<lparr>stage := STAGE_CONNECT\<rparr>,
         [CreateConnection (AddrIPv4 [10, 0, 0, 1]) 53 [9, 9]])
   \<and> transport_protocol udp_handler = Some TRANSPORT_UDP
   \<and> handle_stage_init_begin socks_flag [1, 10, 0, 0, 1, 0, 53, 9, 9] (udp_handler, []) =
        (InitReturned, udp_handler\<lparr>stage := STAGE_INIT\<rparr>,
         [EnsureFuture (UdpEndpoint (AddrIPv4 [10, 0, 0, 1]) 53 [9, 9])])
   \<and> parse_header socks_flag [3, 5, 97, 98] = ParseRaised StructError
   \<and> snd (snd (handle_stage_init_begin socks_flag [3, 5, 97, 98] (tcp_handler, []))) =
        [CaptureException]"
proof -
  have a: "stage destroyed_handler = STAGE_DESTROY" "stage destroyed_handler \<noteq> STAGE_STREAM"
    "cryptor destroyed_handler = Some plain_cipher"
    "decrypt plain_cipher [1, 2, 3] = Inr [1, 2, 3]"
    "stage stream_handler = STAGE_STREAM" "cryptor stream_handler = Some plain_cipher"
    "transport_protocol tcp_handler = Some TRANSPORT_TCP"
    "transport_protocol udp_handler = Some TRANSPORT_UDP"
    by (simp_all add: decrypt_def object_defs stage_defs)
  have p: "parse_header socks_flag [1, 10, 0, 0, 1, 0, 53, 9, 9] =
        Parsed (AddrIPv4 [10, 0, 0, 1]) 53 [9, 9]"
    by (rule example_header)
  have q: "parse_header socks_flag [3, 5, 97, 98] = ParseRaised StructError"
    by (simp add: parse_header_def unpack_H_def slice_def socks_flag_def)
  have b: "handle_data_received 0 [1, 2, 3] (destroyed_handler, [TransportWrite [1]]) =
        (add_once_used_u 3 destroyed_handler, [TransportWrite [1], Log Warning ''unknown stage''])"
    using a relay_and_stages [where w = "(destroyed_handler, [TransportWrite [1]])" and data = "[1, 2, 3]"
        and now = 0 and c = plain_cipher and plain = "[1, 2, 3]"]
    by simp
  have c: "snd (handle_data_received 0 [1, 2, 3] (stream_handler, [TransportWrite [1]])) =
        [TransportWrite [1], Log Debug ''realy data length'', RemoteWrite [1, 2, 3]]"
    using a relay_and_stages [where w = "(stream_handler, [TransportWrite [1]])" and data = "[1, 2, 3]"
        and now = 0 and c = plain_cipher and plain = "[1, 2, 3]"]
    by (simp add: forwarded_def object_defs)
  have d: "handle_stage_init_begin socks_flag [1, 10, 0, 0, 1, 0, 53, 9, 9] (tcp_handler, []) =
        (InitAwaiting, tcp_handler\<lparr>stage := STAGE_CONNECT\<rparr>,
         [CreateConnection (AddrIPv4 [10, 0, 0, 1]) 53 [9, 9]])"
    using a p relay_and_stages [where w = "(tcp_handler, [])" and data = "[1, 10, 0, 0, 1, 0, 53, 9, 9]"
        and flg = socks_flag and a = "AddrIPv4 [10, 0, 0, 1]" and prt = 53 and payload = "[9, 9]"]
    by simp
  have e: "handle_stage_init_begin socks_flag [1, 10, 0, 0, 1, 0, 53, 9, 9] (udp_handler, []) =
        (InitReturned, udp_handler\<lparr>stage := STAGE_INIT\<rparr>,
         [EnsureFuture (UdpEndpoint (AddrIPv4 [10, 0, 0, 1]) 53 [9, 9])])"
    using a p relay_and_stages [where w = "(udp_handler, [])" and data = "[1, 10, 0, 0, 1, 0, 53, 9, 9]"
        and flg = socks_flag and a = "AddrIPv4 [10, 0, 0, 1]" and prt = 53 and payload = "[9, 9]"]
    by simp
  have f: "snd (snd (handle_stage_init_begin socks_flag [3, 5, 97, 98] (tcp_handler, []))) =
        [CaptureException]"
    by (simp add: handle_stage_init_begin_def q emit_def)
  from a p q b c d e f show ?thesis by simp
qed

subsection \<open>Traffic counters\<close>

lemma dispatch_once_used:
  "once_used_u (user (fst (dispatch now data w))) = once_used_u (user (fst w)) + int (length data)
   \<and> once_used_d (user (fst (dispatch now data w))) = once_used_d (user (fst w))"
  by (simp add: dispatch_def Let_def handle_stage_stream_def handle_stage_error_def
      remote_write_eq upd_def emit_def add_once_used_u_def keep_alive_active_def)

lemma data_received_once_used_d:
  "once_used_d (user (fst (handle_data_received now data w))) = once_used_d (user (fst w))"
  by (simp add: handle_data_received_def dispatch_once_used emit_def
      split: option.splits sum.splits)

lemma write_once_used_u:
  "once_used_u (user (fst (handler_write p data w))) = once_used_u (user (fst w))"
  by (simp add: handler_write_def Let_def upd_def emit_def add_once_used_d_def
      split: option.splits transport_kind.splits)

lemma write_once_used_d:
  assumes "transport_protocol (fst w) = Some TRANSPORT_TCP" and "transport (fst w) = Some t"
  shows "once_used_d (user (fst (handler_write p data w))) =
     (case t_write t data of
        None \<Rightarrow> once_used_d (user (fst w)) + int (length data)
      | Some e \<Rightarrow> once_used_d (user (fst w)))"
  using assms
  by (simp add: handler_write_def Let_def upd_def emit_def add_once_used_d_def
      split: option.splits)

text \<open>
  Claim C9 says that \<open>once_used_u\<close> grows by the length of the decrypted plaintext for
  every inbound chunk and \<open>once_used_d\<close> by \<^verbatim>\<open>len(data)\<close> for every TCP write. The
  download counter is updated after \<^verbatim>\<open>transport.write(data)\<close> inside the same
  \<^verbatim>\<open>try\<close>: when the write raises, here a \<^verbatim>\<open>MemoryError\<close>, the counter keeps its
  value while the user is jailed and the connection closed.
\<close>

theorem failed_write_not_counted:
  "once_used_d (user (fst (handler_write admit_all [7, 8]
       (tcp_handler\<lparr>transport := Some full_transport\<rparr>, [])))) \<noteq>
     once_used_d (user (tcp_handler\<lparr>transport := Some full_transport\<rparr>)) + int (length [7, 8 :: 8 word])
   \<and> snd (handler_write admit_all [7, 8] (tcp_handler\<lparr>transport := Some full_transport\<rparr>, [])) =
       [Log Warning ''memory boom user_id'', AddUserToJail 7, TransportClose]"
  by (simp add: handler_write_def close_def upd_def emit_def dec_tcp_count_def object_defs)

text \<open>
  Claim C9 as amended. For an inbound chunk that decrypts, \<open>once_used_u\<close> grows by
  exactly the length of the plaintext, whatever the length of the chunk received, and
  \<^verbatim>\<open>handle_data_received\<close> never changes \<open>once_used_d\<close>. For a TCP write of an admitted
  user, \<open>once_used_d\<close> grows by exactly \<^verbatim>\<open>len(data)\<close> when the write on the transport
  returns and keeps its value when that write raises, and \<^verbatim>\<open>write\<close> never changes
  \<open>once_used_u\<close>.
\<close>

theorem counters_count_plaintext:
  "(cryptor (fst w) = Some c \<and> decrypt c data = Inr plain \<longrightarrow>
      once_used_u (user (fst (handle_data_received now data w))) =
        once_used_u (user (fst w)) + int (length plain))
   \<and> once_used_d (user (fst (handle_data_received now data w))) = once_used_d (user (fst w))
   \<and> (filter_user p (user (fst w)) \<and> transport_protocol (fst w) = Some TRANSPORT_TCP \<and>
       transport (fst w) = Some t \<longrightarrow>
      once_used_d (user (fst (handler_write p data w))) =
        (case t_write t data of
           None \<Rightarrow> once_used_d (user (fst w)) + int (length data)
         | Some e \<Rightarrow> once_used_d (user (fst w))))
   \<and> once_used_u (user (fst (handler_write p data w))) = once_used_u (user (fst w))"
proof (intro conjI impI)
  assume "cryptor (fst w) = Some c \<and> decrypt c data = Inr plain"
  then show "once_used_u (user (fst (handle_data_received now data w))) =
        once_used_u (user (fst w)) + int (length plain)"
    by (simp add: handle_data_received_def dispatch_once_used)
next
  show "once_used_d (user (fst (handle_data_received now data w))) = once_used_d (user (fst w))"
    by (rule data_received_once_used_d)
next
  assume "filter_user p (user (fst w)) \<and> transport_protocol (fst w) = Some TRANSPORT_TCP \<and>
       transport (fst w) = Some t"
  then show "once_used_d (user (fst (handler_write p data w))) =
        (case t_write t data of
           None \<Rightarrow> once_used_d (user (fst w)) + int (length data)
         | Some e \<Rightarrow> once_used_d (user (fst w)))"
    by (simp add: write_once_used_d)
next
  show "once_used_u (user (fst (handler_write p data w))) = once_used_u (user (fst w))"
    by (rule write_once_used_u)
qed

theorem counters_count_plaintext_witness:
  "cryptor (tcp_handler\<lparr>cryptor := Some framed_cipher\<rparr>) = Some framed_cipher
   \<and> decrypt framed_cipher [0, 0, 5, 6, 7] = Inr [5, 6, 7]
   \<and> once_used_u (user (fst (handle_data_received 0 [0, 0, 5, 6, 7]
        (tcp_handler\<lparr>cryptor := Some framed_cipher\<rparr>, [])))) = 3
   \<and> filter_user admit_all (user tcp_handler)
   \<and> transport_protocol tcp_handler = Some TRANSPORT_TCP
   \<and> transport tcp_handler = Some ok_transport
   \<and> once_used_d (user (fst (handler_write admit_all [7, 8] (tcp_handler, [])))) = 2"
proof -
  have a: "cryptor (tcp_handler\<lparr>cryptor := Some framed_cipher\<rparr>) = Some framed_cipher"
    "decrypt framed_cipher [0, 0, 5, 6, 7] = Inr [5, 6, 7]"
    "transport_protocol tcp_handler = Some TRANSPORT_TCP"
    "transport tcp_handler = Some ok_transport"
    "once_used_u (user tcp_handler) = 0" "once_used_d (user tcp_handler) = 0"
    "t_write ok_transport [7, 8] = None" "filter_user admit_all (user tcp_handler)"
    by (simp_all add: decrypt_def object_defs)
  have b: "once_used_u (user (fst (handle_data_received 0 [0, 0, 5, 6, 7]
        (tcp_handler\<lparr>cryptor := Some framed_cipher\<rparr>, [])))) = 3"
    using a counters_count_plaintext [where w = "(tcp_handler\<lparr>cryptor := Some framed_cipher\<rparr>, [])"
        and c = framed_cipher and data = "[0, 0, 5, 6, 7]" and plain = "[5, 6, 7]" and now = 0]
    by simp
  have c: "once_used_d (user (fst (handler_write admit_all [7, 8] (tcp_handler, [])))) = 2"
    using a counters_count_plaintext [where w = "(tcp_handler, [])" and t = ok_transport and data = "[7, 8]"
        and p = admit_all]
    by simp
  from a b c show ?thesis by simp
qed

subsection \<open>Before the connection is made\<close>

lemma dispatch_stage: "stage (fst (dispatch now data w)) = stage (fst w)"
  by (simp add: dispatch_def Let_def handle_stage_stream_def handle_stage_error_def
      remote_write_eq upd_def emit_def add_once_used_u_def keep_alive_active_def)

lemma deliver_stage: "stage (fst (deliver p c w)) = stage (fst w)"
proof (cases c)
  case (DataReceived now data)
  then show ?thesis
    by (simp add: handle_data_received_def dispatch_stage emit_def
        split: option.splits sum.splits)
next
  case EofReceived
  then show ?thesis by (simp add: handle_eof_received_def emit_def)
next
  case ConnectionLost
  then show ?thesis
    by (simp add: handle_connection_lost_def Let_def emit_def split: option.splits)
next
  case (Write data)
  then show ?thesis
    by (simp add: handler_write_def Let_def emit_def upd_def add_once_used_d_def
        split: option.splits transport_kind.splits)
next
  case Close
  then show ?thesis by simp
qed

lemma deliver_all_stage: "stage (fst (deliver_all p cs w)) = stage (fst w)"
  by (induction cs arbitrary: w) (simp_all add: deliver_stage)

lemma deliver_fresh:
  "\<exists>new. deliver p c (LocalHandler_init m pw u t0, evs) =
       (LocalHandler_init m pw u t0, evs @ new) \<and> list_all idle_event new"
proof (cases c)
  case (DataReceived now data)
  then show ?thesis
    by (simp add: handle_data_received_def LocalHandler_init_def emit_def idle_event_def)
next
  case EofReceived
  then show ?thesis
    by (simp add: handle_eof_received_def close_def LocalHandler_init_def emit_def idle_event_def)
next
  case ConnectionLost
  then show ?thesis
    by (simp add: handle_connection_lost_def Let_def LocalHandler_init_def emit_def idle_event_def)
next
  case (Write data)
  then show ?thesis
    by (simp add: handler_write_def Let_def close_def LocalHandler_init_def emit_def idle_event_def)
next
  case Close
  then show ?thesis
    by (simp add: close_def LocalHandler_init_def emit_def idle_event_def)
qed

lemma deliver_all_fresh:
  "\<exists>new. deliver_all p cs (LocalHandler_init m pw u t0, evs) =
       (LocalHandler_init m pw u t0, evs @ new) \<and> list_all idle_event new"
proof (induction cs arbitrary: evs)
  case Nil
  show ?case by simp
next
  case (Cons c cs)
  obtain n1 where n1: "deliver p c (LocalHandler_init m pw u t0, evs) =
       (LocalHandler_init m pw u t0, evs @ n1)" "list_all idle_event n1"
    using deliver_fresh by blast
  obtain n2 where n2: "deliver_all p cs (LocalHandler_init m pw u t0, evs @ n1) =
       (LocalHandler_init m pw u t0, (evs @ n1) @ n2)" "list_all idle_event n2"
    using Cons.IH by blast
  from n1 n2 show ?case by (intro exI [of _ "n1 @ n2"]) simp
qed

text \<open>
  Claim C10: a handler starts in stage DESTROY, which is not INIT; the stage becomes INIT
  only in a connection-made callback; data delivered before that is dispatched to no
  stage handler. For a handler as \<^verbatim>\<open>__init__\<close> leaves it and any sequence of the other
  callbacks (data received, end of input, connection lost, write, close), the handler
  keeps every attribute, the stage with them, and the effects are exception reports and
  the two debug lines only, so that no task is ever scheduled; a chunk of data alone
  ends in the exception report, because there is no cryptor yet. The TCP callback moves
  an admitted user's handler to INIT and leaves a rejected one in DESTROY; the UDP
  callback moves the handler to INIT. In any state of a handler, whatever its stage,
  these other callbacks leave the stage as it is.
\<close>

theorem fresh_handler_not_dispatching:
  "stage (LocalHandler_init m pw u t0) = STAGE_DESTROY \<and> STAGE_DESTROY \<noteq> STAGE_INIT
   \<and> fst (deliver_all p cs (LocalHandler_init m pw u t0, [])) = LocalHandler_init m pw u t0
   \<and> list_all idle_event (snd (deliver_all p cs (LocalHandler_init m pw u t0, [])))
   \<and> handle_data_received now data (LocalHandler_init m pw u t0, []) =
       (LocalHandler_init m pw u t0, [CaptureException])
   \<and> stage (fst (handle_tcp_connection_made p lib tr (LocalHandler_init m pw u t0, []))) =
       (if filter_user p u then STAGE_INIT else STAGE_DESTROY)
   \<and> stage (fst (handle_udp_connection_made lib tr pn (LocalHandler_init m pw u t0, []))) =
       STAGE_INIT
   \<and> stage (fst (deliver_all p cs w)) = stage (fst w)"
proof -
  obtain new where n: "deliver_all p cs (LocalHandler_init m pw u t0, []) =
       (LocalHandler_init m pw u t0, [] @ new)" "list_all idle_event new"
    using deliver_all_fresh by blast
  have a: "handle_data_received now data (LocalHandler_init m pw u t0, []) =
       (LocalHandler_init m pw u t0, [CaptureException])"
    by (simp add: handle_data_received_def LocalHandler_init_def emit_def)
  have b: "stage (fst (handle_tcp_connection_made p lib tr (LocalHandler_init m pw u t0, []))) =
       (if filter_user p u then STAGE_INIT else STAGE_DESTROY)"
    by (simp add: handle_tcp_connection_made_def make_cryptor_def cryptor_made_def
        Cryptor_call_def LocalHandler_init_def emit_def upd_def split: option.splits)
  have c: "stage (fst (handle_udp_connection_made lib tr pn (LocalHandler_init m pw u t0, []))) =
       STAGE_INIT"
    by (simp add: handle_udp_connection_made_def make_cryptor_def cryptor_made_def
        Cryptor_call_def emit_def upd_def)
  from n a b c show ?thesis by (simp add: deliver_all_stage LocalHandler_init_def stage_defs)
qed

theorem fresh_handler_not_dispatching_witness:
  "snd (deliver_all reject_all [DataReceived 1 [1, 2, 3], Write [4], EofReceived, ConnectionLost, Close]
      (fresh_handler, [])) =
     [CaptureException, CaptureException, CaptureException, Log Debug ''eof received'',
      CaptureException, Log Debug ''lost exc'', CaptureException]
   \<and> stage (fst (deliver_all reject_all
        [DataReceived 1 [1, 2, 3], Write [4], EofReceived, ConnectionLost, Close]
        (fresh_handler, []))) = STAGE_DESTROY"
  using fresh_handler_not_dispatching [of "''aes-256-cfb''" "''secret''" example_user 0 reject_all
      "[DataReceived 1 [1, 2, 3], Write [4], EofReceived, ConnectionLost, Close]"]
  by (simp add: fresh_handler_def handle_data_received_def handler_write_def handle_eof_received_def
      handle_connection_lost_def close_def emit_def LocalHandler_init_def reject_all_def)

end
